theory Spec2Isabelle
  imports Complex_Main "HOL-Library.Multiset"
begin

section \<open>JavaScript numbers\<close>

text \<open>
  The plugin computes with JavaScript numbers. A number is \<open>NaN\<close>, one of the two
  infinities, or a finite value; finite values are modelled by the reals they denote.
  Comparison, \<open>Math.min\<close> and \<open>Math.max\<close> are exact on doubles, and the sign of a
  difference of two doubles is the sign of the exact difference, so the order-theoretic
  behaviour below is that of the source. The rounding of a product is not modelled,
  and the two zeros are one value.
\<close>

datatype jsnum = NaN | NInf | Fin real | PInf

fun Number_isNaN :: "jsnum \<Rightarrow> bool" where
  "Number_isNaN NaN = True"
| "Number_isNaN _ = False"

fun Number_isFinite :: "jsnum \<Rightarrow> bool" where
  "Number_isFinite (Fin _) = True"
| "Number_isFinite _ = False"

text \<open>The operator \<open><=\<close> on two numbers: false as soon as one side is \<open>NaN\<close>.\<close>

fun js_le :: "jsnum \<Rightarrow> jsnum \<Rightarrow> bool" where
  "js_le NaN _ = False"
| "js_le _ NaN = False"
| "js_le NInf _ = True"
| "js_le _ PInf = True"
| "js_le (Fin a) (Fin b) = (a \<le> b)"
| "js_le PInf _ = False"
| "js_le _ NInf = False"

text \<open>\<open>Math.max\<close> and \<open>Math.min\<close> of two numbers: \<open>NaN\<close> if either argument is.\<close>

definition Math_max :: "jsnum \<Rightarrow> jsnum \<Rightarrow> jsnum" where
  "Math_max a b =
     (if Number_isNaN a \<or> Number_isNaN b then NaN else if js_le a b then b else a)"

definition Math_min :: "jsnum \<Rightarrow> jsnum \<Rightarrow> jsnum" where
  "Math_min a b =
     (if Number_isNaN a \<or> Number_isNaN b then NaN else if js_le a b then a else b)"

text \<open>The operator \<open>*\<close>: an infinity times zero is \<open>NaN\<close>.\<close>

fun js_sign_inf :: "real \<Rightarrow> bool \<Rightarrow> jsnum" where
  "js_sign_inf a pos =
     (if a = 0 then NaN else if (0 < a) = pos then PInf else NInf)"

fun js_mul :: "jsnum \<Rightarrow> jsnum \<Rightarrow> jsnum" where
  "js_mul NaN _ = NaN"
| "js_mul _ NaN = NaN"
| "js_mul (Fin a) (Fin b) = Fin (a * b)"
| "js_mul (Fin a) PInf = js_sign_inf a True"
| "js_mul (Fin a) NInf = js_sign_inf a False"
| "js_mul PInf (Fin b) = js_sign_inf b True"
| "js_mul NInf (Fin b) = js_sign_inf b False"
| "js_mul PInf PInf = PInf"
| "js_mul NInf NInf = PInf"
| "js_mul PInf NInf = NInf"
| "js_mul NInf PInf = NInf"

text \<open>The operator \<open>-\<close>: the difference of two equal infinities is \<open>NaN\<close>.\<close>

fun js_sub :: "jsnum \<Rightarrow> jsnum \<Rightarrow> jsnum" where
  "js_sub NaN _ = NaN"
| "js_sub _ NaN = NaN"
| "js_sub (Fin a) (Fin b) = Fin (a - b)"
| "js_sub (Fin a) PInf = NInf"
| "js_sub (Fin a) NInf = PInf"
| "js_sub PInf PInf = NaN"
| "js_sub NInf NInf = NaN"
| "js_sub PInf _ = PInf"
| "js_sub NInf _ = NInf"

text \<open>Truthiness of a number (\<open>0\<close> and \<open>NaN\<close> are falsy) and \<open>a || b\<close> on numbers.\<close>

definition truthy_num :: "jsnum \<Rightarrow> bool" where
  "truthy_num n = (n \<noteq> NaN \<and> n \<noteq> Fin 0)"

definition num_or :: "jsnum \<Rightarrow> jsnum \<Rightarrow> jsnum" where
  "num_or a b = (if truthy_num a then a else b)"

section \<open>Settings\<close>

text \<open>
  The settings bag. Every numeric field is read through \<open>Number(settings.field)\<close>,
  so the record holds the result of that coercion: \<open>NaN\<close> stands for a value that is
  not numeric (a word, an object, \<open>undefined\<close>).
\<close>

record settings =
  payloadKey :: string
  rotationSeconds :: jsnum
  epicOccurrenceThreshold :: jsnum
  rareOccurrenceThreshold :: jsnum
  uncommonOccurrenceThreshold :: jsnum
  rareHoldMultiplier :: jsnum

definition DEFAULTS :: settings where
  "DEFAULTS = \<lparr> payloadKey = ''CommonName'',
                rotationSeconds = Fin 4,
                epicOccurrenceThreshold = Fin 0.1,
                rareOccurrenceThreshold = Fin 0.4,
                uncommonOccurrenceThreshold = Fin 0.7,
                rareHoldMultiplier = Fin 2 \<rparr>"

section \<open>Rarity classifier\<close>

datatype tier = Unknown | Common | Uncommon | Rare | Epic

record commonality =
  label :: tier
  color :: string
  shape :: string

text \<open>\<open>Number.isFinite(Number(x)) ? Number(x) : d\<close>\<close>

definition finite_or :: "jsnum \<Rightarrow> jsnum \<Rightarrow> jsnum" where
  "finite_or v d = (if Number_isFinite v then v else d)"

definition epicCutoff :: "settings \<Rightarrow> jsnum" where
  "epicCutoff s =
     Math_max (Fin 0) (Math_min (Fin 1)
       (finite_or (epicOccurrenceThreshold s) (epicOccurrenceThreshold DEFAULTS)))"

definition rareCutoff :: "settings \<Rightarrow> jsnum" where
  "rareCutoff s =
     Math_max (epicCutoff s) (Math_min (Fin 1)
       (finite_or (rareOccurrenceThreshold s) (rareOccurrenceThreshold DEFAULTS)))"

definition uncommonCutoff :: "settings \<Rightarrow> jsnum" where
  "uncommonCutoff s =
     Math_max (rareCutoff s) (Math_min (Fin 1)
       (finite_or (uncommonOccurrenceThreshold s) (uncommonOccurrenceThreshold DEFAULTS)))"

text \<open>
  \<open>getCommonality(occurrence)\<close>. The argument is \<open>None\<close> when it is not of type
  number (\<open>null\<close>, \<open>undefined\<close>).
\<close>

definition getCommonality :: "settings \<Rightarrow> jsnum option \<Rightarrow> commonality" where
  "getCommonality s occurrence =
     (case occurrence of
        None \<Rightarrow> \<lparr> label = Unknown, color = ''#9ca3af'', shape = ''hex'' \<rparr>
      | Some oc \<Rightarrow>
          if Number_isNaN oc then \<lparr> label = Unknown, color = ''#9ca3af'', shape = ''hex'' \<rparr>
          else if js_le oc (epicCutoff s) then
            \<lparr> label = Epic, color = ''#7c3aed'', shape = ''star'' \<rparr>
          else if js_le oc (rareCutoff s) then
            \<lparr> label = Rare, color = ''#f59e0b'', shape = ''diamond'' \<rparr>
          else if js_le oc (uncommonCutoff s) then
            \<lparr> label = Uncommon, color = ''#38bdf8'', shape = ''square'' \<rparr>
          else \<lparr> label = Common, color = ''#22c55e'', shape = ''circle'' \<rparr>)"

text \<open>The tiers from most common to rarest, for comparing two classifications.\<close>

fun rarity :: "tier \<Rightarrow> nat" where
  "rarity Unknown = 0"
| "rarity Common = 1"
| "rarity Uncommon = 2"
| "rarity Rare = 3"
| "rarity Epic = 4"

section \<open>Rolling counter\<close>

text \<open>
  \<open>detectionTimestamps\<close> is an array of \<open>Date.now()\<close> values (integer milliseconds).
  The clock is a parameter. \<open>pruneDetections\<close> shifts entries off the front while the
  first one is older than the cutoff.
\<close>

fun pruneDetections :: "int \<Rightarrow> int list \<Rightarrow> int list" where
  "pruneDetections now [] = []"
| "pruneDetections now (t # ts) =
     (if t < now - 60 * 60 * 1000 then pruneDetections now ts else t # ts)"

definition recordDetection :: "int \<Rightarrow> int list \<Rightarrow> int list" where
  "recordDetection now detectionTimestamps =
     pruneDetections now (detectionTimestamps @ [now])"

text \<open>Returns the count and the pruned array.\<close>

definition getDetectionsLastHour :: "int \<Rightarrow> int list \<Rightarrow> nat \<times> int list" where
  "getDetectionsLastHour now detectionTimestamps =
     (length (pruneDetections now detectionTimestamps),
      pruneDetections now detectionTimestamps)"

text \<open>Recording one detection at each of the given times, in that order.\<close>

fun record_all :: "int list \<Rightarrow> int list \<Rightarrow> int list" where
  "record_all [] detectionTimestamps = detectionTimestamps"
| "record_all (t # ts) detectionTimestamps =
     record_all ts (recordDetection t detectionTimestamps)"

section \<open>Daily aggregator\<close>

text \<open>
  A Detection as \<open>parsePayload\<close> returns it. An optional field is \<open>None\<close> when the
  source holds \<open>null\<close> or \<open>undefined\<close> there: the code tells the two apart nowhere.
\<close>

record detection =
  name :: string
  confidence :: "jsnum option"
  imageUrl :: "string option"
  occurrence :: "jsnum option"
  detectionDate :: "string option"

text \<open>The record stored per species and day.\<close>

record bird =
  b_name :: string
  b_occurrence :: "jsnum option"
  b_confidence :: "jsnum option"
  lastSeen :: int

text \<open>
  A day's \<open>Map\<close> from species name to record keeps insertion order, which
  \<open>values()\<close> exposes: it is an association list. \<open>set\<close> on a present key replaces
  the value in place, on an absent key it appends.
\<close>

type_synonym dayMap = "(string \<times> bird) list"

fun map_get :: "('k \<times> 'v) list \<Rightarrow> 'k \<Rightarrow> 'v option" where
  "map_get [] k = None"
| "map_get ((k', v) # m) k = (if k' = k then Some v else map_get m k)"

fun map_set :: "('k \<times> 'v) list \<Rightarrow> 'k \<Rightarrow> 'v \<Rightarrow> ('k \<times> 'v) list" where
  "map_set [] k v = [(k, v)]"
| "map_set ((k', v') # m) k v = (if k' = k then (k, v) # m else (k', v') # map_set m k v)"

definition map_values :: "('k \<times> 'v) list \<Rightarrow> 'v list" where
  "map_values m = map snd m"

text \<open>
  \<open>dailyBirds\<close> maps a date key to a day's map; nothing reads the order of its keys.
\<close>

type_synonym dailyBirds = "string \<rightharpoonup> dayMap"

definition pruneOldDays :: "string \<Rightarrow> dailyBirds \<Rightarrow> dailyBirds" where
  "pruneOldDays todayKey db = (\<lambda>key. if key \<noteq> todayKey then None else db key)"

text \<open>\<open>detection.detectionDate || new Date().toISOString().slice(0, 10)\<close>\<close>

definition dateKey_of :: "string \<Rightarrow> detection \<Rightarrow> string" where
  "dateKey_of today d =
     (case detectionDate d of
        None \<Rightarrow> today
      | Some s \<Rightarrow> if s = [] then today else s)"

text \<open>
  \<open>updateDailyBirds(detection)\<close>. The clock is a parameter: \<open>today\<close> is the date part
  of \<open>new Date().toISOString()\<close>, \<open>now\<close> is \<open>Date.now()\<close>. A detection with an empty
  name returns after the day's map was created and before anything is pruned. The
  debounced save of the cache file is outside the model.
\<close>

definition updateDailyBirds :: "string \<Rightarrow> int \<Rightarrow> detection \<Rightarrow> dailyBirds \<Rightarrow> dailyBirds" where
  "updateDailyBirds today now d db =
     (let dateKey = dateKey_of today d;
          db1 = (if db dateKey = None then db(dateKey \<mapsto> []) else db);
          dayMap = (case db1 dateKey of None \<Rightarrow> [] | Some m \<Rightarrow> m);
          key = name d
      in if key = [] then db1
         else
           let existing = map_get dayMap key;
               existing_occurrence =
                 (case existing of None \<Rightarrow> None | Some e \<Rightarrow> b_occurrence e);
               existing_confidence =
                 (case existing of None \<Rightarrow> None | Some e \<Rightarrow> b_confidence e);
               occ = (case occurrence d of Some n \<Rightarrow> Some n | None \<Rightarrow> existing_occurrence);
               conf = (case confidence d of Some n \<Rightarrow> Some n | None \<Rightarrow> existing_confidence);
               record = \<lparr> b_name = name d,
                          b_occurrence =
                            (case occ of
                               Some n \<Rightarrow>
                                 Some (Math_min n
                                   (case existing_occurrence of Some e \<Rightarrow> e | None \<Rightarrow> n))
                             | None \<Rightarrow> None),
                          b_confidence = conf,
                          lastSeen = now \<rparr>
           in pruneOldDays dateKey (db1(dateKey \<mapsto> map_set dayMap key record)))"

text \<open>
  \<open>Array.prototype.sort\<close> with a comparator is stable. For a comparator that is a
  consistent ordering every stable sort returns the same array, the one insertion from
  the right builds: an element goes before the first one it does not compare greater
  than. A comparator result of \<open>NaN\<close> counts as \<open>0\<close>.
\<close>

definition cmp_positive :: "jsnum \<Rightarrow> bool" where
  "cmp_positive r = (\<not> Number_isNaN r \<and> \<not> js_le r (Fin 0))"

fun sort_insert :: "('a \<Rightarrow> 'a \<Rightarrow> jsnum) \<Rightarrow> 'a \<Rightarrow> 'a list \<Rightarrow> 'a list" where
  "sort_insert cmp x [] = [x]"
| "sort_insert cmp x (y # ys) =
     (if cmp_positive (cmp x y) then y # sort_insert cmp x ys else x # y # ys)"

fun js_sort :: "('a \<Rightarrow> 'a \<Rightarrow> jsnum) \<Rightarrow> 'a list \<Rightarrow> 'a list" where
  "js_sort cmp [] = []"
| "js_sort cmp (x # xs) = sort_insert cmp x (js_sort cmp xs)"

text \<open>\<open>typeof a.occurrence === "number" ? a.occurrence : 1\<close>\<close>

definition occ_or_1 :: "bird \<Rightarrow> jsnum" where
  "occ_or_1 a = (case b_occurrence a of Some n \<Rightarrow> n | None \<Rightarrow> Fin 1)"

definition by_occurrence :: "bird \<Rightarrow> bird \<Rightarrow> jsnum" where
  "by_occurrence a b = js_sub (occ_or_1 a) (occ_or_1 b)"

definition getTodayBirds :: "string \<Rightarrow> dailyBirds \<Rightarrow> bird list" where
  "getTodayBirds today db =
     (case db today of
        None \<Rightarrow> []
      | Some dayMap \<Rightarrow> js_sort by_occurrence (map_values dayMap))"

text \<open>Reading the aggregate: the record of a species on a day, and two of its fields.\<close>

definition stored :: "dailyBirds \<Rightarrow> string \<Rightarrow> string \<Rightarrow> bird option" where
  "stored db dateKey key = (case db dateKey of None \<Rightarrow> None | Some dayMap \<Rightarrow> map_get dayMap key)"

definition stored_occurrence :: "dailyBirds \<Rightarrow> string \<Rightarrow> string \<Rightarrow> jsnum option" where
  "stored_occurrence db dateKey key =
     (case stored db dateKey key of None \<Rightarrow> None | Some r \<Rightarrow> b_occurrence r)"

definition stored_confidence :: "dailyBirds \<Rightarrow> string \<Rightarrow> string \<Rightarrow> jsnum option" where
  "stored_confidence db dateKey key =
     (case stored db dateKey key of None \<Rightarrow> None | Some r \<Rightarrow> b_confidence r)"

text \<open>
  Ascending order of occurrence, a missing occurrence counting as \<open>1\<close>: the order the
  list of today's species is meant to have.
\<close>

definition occ_le :: "bird \<Rightarrow> bird \<Rightarrow> bool" where
  "occ_le a b = js_le (occ_or_1 a) (occ_or_1 b)"

section \<open>Rotation scheduler\<close>

text \<open>
  The state kept per context. \<open>timer\<close> is \<open>None\<close> for \<open>null\<close> and otherwise holds the
  delay the pending timer was armed with.
\<close>

record rotation =
  index :: nat
  timer :: "jsnum option"
  lastRareHold :: bool

text \<open>What a tick puts on the key: the placeholder title or the tile of one species.\<close>

datatype shown = Waiting | Tile bird

text \<open>
  The body of \<open>rotateOnce\<close> once the context's state was found. \<open>birds\<close> is the value
  of \<open>getTodayBirds()\<close> at the tick. The rendering of the tile is outside the model.
\<close>

definition rotate_state :: "settings \<Rightarrow> bird list \<Rightarrow> rotation \<Rightarrow> shown \<times> rotation" where
  "rotate_state s birds state =
     (let (out, state1) =
            (if birds = [] then (Waiting, state\<lparr> lastRareHold := False \<rparr>)
             else
               let i = (if index state \<ge> length birds then 0 else index state);
                   bird = birds ! i;
                   threshold = num_or (rareOccurrenceThreshold s) (rareOccurrenceThreshold DEFAULTS)
               in (Tile bird,
                   state\<lparr> index := i + 1,
                          lastRareHold :=
                            (case b_occurrence bird of
                               Some oc \<Rightarrow> js_le oc threshold
                             | None \<Rightarrow> False) \<rparr>));
          seconds = num_or (rotationSeconds s) (rotationSeconds DEFAULTS);
          holdMultiplier = num_or (rareHoldMultiplier s) (rareHoldMultiplier DEFAULTS);
          delayMs = Math_max (Fin 1)
                      (js_mul (js_mul seconds (Fin 1000))
                         (if lastRareHold state1 then holdMultiplier else Fin 1))
      in (out, state1\<lparr> timer := Some delayMs \<rparr>))"

text \<open>
  \<open>rotateOnce(context)\<close> on the map \<open>rotationState\<close>: nothing happens for a context
  without a state.
\<close>

type_synonym rotationState = "string \<rightharpoonup> rotation"

definition rotateOnce ::
  "settings \<Rightarrow> bird list \<Rightarrow> string \<Rightarrow> rotationState \<Rightarrow> shown option \<times> rotationState" where
  "rotateOnce s birds context rs =
     (case rs context of
        None \<Rightarrow> (None, rs)
      | Some state \<Rightarrow>
          (let (out, state') = rotate_state s birds state
           in (Some out, rs(context \<mapsto> state'))))"

definition startRotation ::
  "settings \<Rightarrow> bird list \<Rightarrow> string \<Rightarrow> bool \<Rightarrow> rotationState \<Rightarrow> shown option \<times> rotationState" where
  "startRotation s birds context immediate rs =
     (if context = [] then (None, rs)
      else
        let rs1 = (if rs context = None
                   then rs(context \<mapsto> \<lparr> index = 0, timer = None, lastRareHold = False \<rparr>)
                   else rs);
            rs2 = (case rs1 context of
                     None \<Rightarrow> rs1
                   | Some state \<Rightarrow> rs1(context \<mapsto> state\<lparr> timer := None \<rparr>))
        in if immediate then rotateOnce s birds context rs2
           else (None,
                 case rs2 context of
                   None \<Rightarrow> rs2
                 | Some state \<Rightarrow> rs2(context \<mapsto> state\<lparr> timer := Some (Fin 50) \<rparr>)))"

definition stopRotation :: "string \<Rightarrow> rotationState \<Rightarrow> rotationState" where
  "stopRotation context rs = rs(context := None)"

text \<open>
  What \<open>n\<close> consecutive ticks of one context show, and the state they leave, while
  settings and today's species stay as they are.
\<close>

fun ticks ::
  "settings \<Rightarrow> bird list \<Rightarrow> string \<Rightarrow> nat \<Rightarrow> rotationState \<Rightarrow> shown option list \<times> rotationState" where
  "ticks s birds context 0 rs = ([], rs)"
| "ticks s birds context (Suc n) rs =
     (let (out, rs') = rotateOnce s birds context rs;
          (outs, rs'') = ticks s birds context n rs'
      in (out # outs, rs''))"

text \<open>The delay of the timer a context has pending.\<close>

definition armed_delay :: "string \<Rightarrow> rotationState \<Rightarrow> jsnum option" where
  "armed_delay context rs = (case rs context of None \<Rightarrow> None | Some state \<Rightarrow> timer state)"

section \<open>Image cache\<close>

text \<open>
  \<open>fetchImageData\<close> returns a promise. All handlers run on one event loop, so the
  asynchronous code is a state machine with two kinds of step: a call of
  \<open>fetchImageData\<close>, and the settlement of a started fetch, at which its
  \<open>then\<close> and \<open>finally\<close> handlers run.
\<close>

datatype fetch_error = FetchUnavailable | NetworkFailure | HttpStatus nat | BodyFailure

text \<open>How a promise settles: with the data URI, or with an error.\<close>

datatype settled = Fulfilled string | Rejected fetch_error

text \<open>
  A promise handed to a caller: one that is settled from the start
  (\<open>Promise.resolve\<close>, \<open>Promise.reject\<close>), or the promise of a started fetch, known
  by its identity. Two callers that hold the same started promise get the same result.
\<close>

datatype promise = Ready settled | Started nat

text \<open>
  What the transport delivers for one request. \<open>content_type\<close> is
  \<open>res.headers.get("content-type")\<close>; \<open>body_base64\<close> is the body as
  \<open>Buffer.from(buf).toString("base64")\<close> renders it, \<open>None\<close> when reading the body
  fails.
\<close>

record response =
  ok :: bool
  status :: nat
  content_type :: "string option"
  body_base64 :: "string option"

datatype transport = Responded response | Failed

text \<open>
  The two maps of the source, the list of URLs handed to \<open>fetch\<close> so far (one entry
  per network request), the results of the started promises that have settled, and
  whether a global \<open>fetch\<close> function exists.
\<close>

record images =
  imageCache :: "string \<rightharpoonup> string"
  imageInFlight :: "string \<rightharpoonup> nat"
  requests :: "string list"
  outcomes :: "nat \<rightharpoonup> settled"
  fetch_available :: bool

definition fetchImageData :: "string \<Rightarrow> images \<Rightarrow> promise \<times> images" where
  "fetchImageData url st =
     (case imageCache st url of
        Some dataUri \<Rightarrow> (Ready (Fulfilled dataUri), st)
      | None \<Rightarrow>
          (case imageInFlight st url of
             Some p \<Rightarrow> (Started p, st)
           | None \<Rightarrow>
               if \<not> fetch_available st then (Ready (Rejected FetchUnavailable), st)
               else
                 let p = length (requests st)
                 in (Started p,
                     st\<lparr> requests := requests st @ [url],
                         imageInFlight := (imageInFlight st)(url \<mapsto> p) \<rparr>)))"

text \<open>
  The settlement of the fetch that \<open>fetchImageData url\<close> started as promise \<open>p\<close>:
  the \<open>then\<close> handler throws on a response that is not ok and otherwise stores the
  data URI; the \<open>finally\<close> handler deletes the in-flight entry in every case.
\<close>

definition settle :: "nat \<Rightarrow> string \<Rightarrow> transport \<Rightarrow> images \<Rightarrow> images" where
  "settle p url t st =
     (let (result, cache) =
            (case t of
               Failed \<Rightarrow> (Rejected NetworkFailure, imageCache st)
             | Responded res \<Rightarrow>
                 if \<not> ok res then (Rejected (HttpStatus (status res)), imageCache st)
                 else
                   (case body_base64 res of
                      None \<Rightarrow> (Rejected BodyFailure, imageCache st)
                    | Some base64 \<Rightarrow>
                        let contentType =
                              (case content_type res of
                                 None \<Rightarrow> ''image/jpeg''
                               | Some c \<Rightarrow> if c = [] then ''image/jpeg'' else c);
                            dataUri = ''data:'' @ contentType @ '';base64,'' @ base64
                        in (Fulfilled dataUri, (imageCache st)(url \<mapsto> dataUri))))
      in st\<lparr> imageCache := cache,
             imageInFlight := (imageInFlight st)(url := None),
             outcomes := (outcomes st)(p \<mapsto> result) \<rparr>)"

section \<open>JavaScript values\<close>


text \<open>A thrown exception is the left summand of the result.\<close>

datatype js_error = TypeError | SyntaxError

definition then_do :: "js_error + 'a \<Rightarrow> ('a \<Rightarrow> js_error + 'b) \<Rightarrow> js_error + 'b" where
  "then_do m f = (case m of Inl e \<Rightarrow> Inl e | Inr v \<Rightarrow> f v)"



















section \<open>Payload normalizer\<close>















section \<open>Sample inputs\<close>

text \<open>Settings whose thresholds are out of order, with one that is not numeric.\<close>

definition out_of_order :: settings where
  "out_of_order = DEFAULTS\<lparr> epicOccurrenceThreshold := Fin 0.9,
                            rareOccurrenceThreshold := Fin 0.5,
                            uncommonOccurrenceThreshold := NaN \<rparr>"

text \<open>Settings with a rotation interval that is not numeric and a negative hold multiplier.\<close>

definition negative_hold :: settings where
  "negative_hold = DEFAULTS\<lparr> rotationSeconds := NaN, rareHoldMultiplier := Fin (- 5) \<rparr>"

definition fresh_rotation :: rotation where
  "fresh_rotation = \<lparr> index = 0, timer = None, lastRareHold = False \<rparr>"

definition jay :: bird where
  "jay = \<lparr> b_name = ''Blue Jay'', b_occurrence = Some (Fin 0.05),
           b_confidence = Some (Fin 0.87), lastSeen = 1000 \<rparr>"

definition robin :: bird where
  "robin = \<lparr> b_name = ''American Robin'', b_occurrence = Some (Fin 0.8),
             b_confidence = None, lastSeen = 2000 \<rparr>"

definition wren :: bird where
  "wren = \<lparr> b_name = ''Wren'', b_occurrence = None,
            b_confidence = Some (Fin 0.5), lastSeen = 3000 \<rparr>"


text \<open>One day with three species, stored in the order they were first heard.\<close>

definition garden :: dailyBirds where
  "garden = [''2024-05-01'' \<mapsto>
               [(''American Robin'', robin), (''Wren'', wren), (''Blue Jay'', jay)]]"

text \<open>Two detections of one species on one day, and one that carries no numbers.\<close>

definition heard_half :: detection where
  "heard_half = \<lparr> name = ''Blue Jay'', confidence = Some (Fin 0.9), imageUrl = None,
                  occurrence = Some (Fin 0.5), detectionDate = Some ''2024-05-01'' \<rparr>"

definition heard_fifth :: detection where
  "heard_fifth = \<lparr> name = ''Blue Jay'', confidence = Some (Fin 0.6), imageUrl = None,
                   occurrence = Some (Fin 0.2), detectionDate = Some ''2024-05-01'' \<rparr>"

definition heard_bare :: detection where
  "heard_bare = \<lparr> name = ''Blue Jay'', confidence = None, imageUrl = None,
                  occurrence = None, detectionDate = Some ''2024-05-01'' \<rparr>"

text \<open>A detection dated one day after the day \<open>garden\<close> holds.\<close>

definition next_day :: detection where
  "next_day = \<lparr> name = ''Wren'', confidence = Some (Fin 0.7), imageUrl = None,
                occurrence = Some (Fin 0.3), detectionDate = Some ''2024-05-02'' \<rparr>"

text \<open>The image cache at start-up, and two deliveries of the transport.\<close>

definition no_images :: images where
  "no_images = \<lparr> imageCache = Map.empty, imageInFlight = Map.empty, requests = [],
                  outcomes = Map.empty, fetch_available = True \<rparr>"

definition jpeg_ok :: transport where
  "jpeg_ok = Responded \<lparr> ok = True, status = 200, content_type = None,
                          body_base64 = Some ''AAEC'' \<rparr>"

definition not_found :: transport where
  "not_found = Responded \<lparr> ok = False, status = 404, content_type = Some ''text/html'',
                             body_base64 = Some ''PGh0bWw+'' \<rparr>"

definition jay_url :: string where
  "jay_url = ''http://birdnet.local/jay.jpg''"





section \<open>Properties of the number model\<close>

lemma finite_or_Fin: "\<exists>x. finite_or v (Fin d) = Fin x"
  by (cases v) (simp_all add: finite_or_def)

lemma Math_min_Fin: "Math_min (Fin a) (Fin b) = Fin (min a b)"
  by (simp add: Math_min_def min_def)

lemma Math_max_Fin: "Math_max (Fin a) (Fin b) = Fin (max a b)"
  by (simp add: Math_max_def max_def)

lemma js_le_trans: "js_le a b \<Longrightarrow> js_le b c \<Longrightarrow> js_le a c"
  by (cases a; cases b; cases c) simp_all

lemma num_or_truthy: "truthy_num d \<Longrightarrow> truthy_num (num_or a d)"
  by (simp add: num_or_def)

lemma js_mul_truthy: "truthy_num a \<Longrightarrow> truthy_num b \<Longrightarrow> truthy_num (js_mul a b)"
  by (cases a; cases b) (auto simp: truthy_num_def)

lemma truthy_not_NaN: "truthy_num a \<Longrightarrow> \<not> Number_isNaN a"
  by (cases a) (auto simp: truthy_num_def)

lemma Math_max_floor: "\<not> Number_isNaN x \<Longrightarrow> js_le (Fin 1) (Math_max (Fin 1) x)"
  by (cases x) (auto simp: Math_max_def)

section \<open>Rolling counter: the window of the count\<close>

lemma pruneDetections_append:
  "c1 \<le> c2 \<Longrightarrow>
   pruneDetections c2 (pruneDetections c1 ys @ zs) = pruneDetections c2 (ys @ zs)"
  by (induction ys) auto

lemma prune_record_all:
  "\<forall>x\<in>set stamps. x \<le> t \<Longrightarrow>
   pruneDetections t (record_all stamps st) = pruneDetections t (st @ stamps)"
proof (induction stamps arbitrary: st)
  case Nil
  then show ?case by simp
next
  case (Cons x xs)
  have "pruneDetections t (record_all (x # xs) st)
        = pruneDetections t (pruneDetections x (st @ [x]) @ xs)"
    using Cons by (simp add: recordDetection_def)
  also have "\<dots> = pruneDetections t ((st @ [x]) @ xs)"
    using Cons.prems by (intro pruneDetections_append) simp
  finally show ?case by simp
qed

lemma pruneDetections_sorted:
  "sorted ts \<Longrightarrow> pruneDetections now ts = filter (\<lambda>x. now - 3600000 \<le> x) ts"
proof (induction ts)
  case Nil
  then show ?case by simp
next
  case (Cons t ts)
  show ?case
  proof (cases "t < now - 3600000")
    case True
    with Cons show ?thesis by simp
  next
    case False
    with Cons.prems have "\<forall>x\<in>set ts. now - 3600000 \<le> x" by auto
    then have "filter (\<lambda>x. now - 3600000 \<le> x) ts = ts" by (simp add: filter_id_conv)
    with False show ?thesis by simp
  qed
qed

text \<open>
  C3, as the code has it. The timestamps are recorded in non-decreasing order and the
  query comes no earlier than any of them. The count is the number of recorded
  timestamps \<open>x\<close> with \<open>t - 3600000 \<le> x \<le> t\<close>: the window is closed at both ends,
  so a timestamp exactly one hour old is still counted.
\<close>

theorem rolling_count_closed_window:
  assumes "sorted stamps" and "\<forall>x\<in>set stamps. x \<le> t"
  shows "fst (getDetectionsLastHour t (record_all stamps [])) =
         length (filter (\<lambda>x. t - 3600000 \<le> x \<and> x \<le> t) stamps)"
proof -
  have "pruneDetections t (record_all stamps []) = filter (\<lambda>x. t - 3600000 \<le> x) stamps"
    using assms by (simp add: prune_record_all pruneDetections_sorted)
  also have "\<dots> = filter (\<lambda>x. t - 3600000 \<le> x \<and> x \<le> t) stamps"
    using assms(2) by (intro filter_cong) auto
  finally show ?thesis by (simp add: getDetectionsLastHour_def)
qed

theorem rolling_count_closed_window_witness:
  "sorted [0, 1000, 3601000 :: int] \<and>
   list_all (\<lambda>x. x \<le> 3601000) [0, 1000, 3601000 :: int] \<and>
   fst (getDetectionsLastHour 3601000 (record_all [0, 1000, 3601000] [])) = 2"
  using rolling_count_closed_window [of "[0, 1000, 3601000]" 3601000] by simp

text \<open>
  C3 as stated fails: one detection recorded at time 0 and a query exactly one hour
  later. The half-open window holds no timestamp, the code counts one.
\<close>

theorem rolling_count_half_open_counterexample:
  "fst (getDetectionsLastHour 3600000 (record_all [0] [])) \<noteq>
   length (filter (\<lambda>x. 3600000 - 3600000 < x \<and> x \<le> 3600000) [0 :: int])"
  by (simp add: getDetectionsLastHour_def recordDetection_def)

section \<open>Rarity classifier: the effective cutoffs\<close>

lemma epicCutoff_Fin: "\<exists>e. epicCutoff s = Fin e \<and> 0 \<le> e \<and> e \<le> 1"
proof -
  obtain x where "finite_or (epicOccurrenceThreshold s) (epicOccurrenceThreshold DEFAULTS) = Fin x"
    using finite_or_Fin by (auto simp: DEFAULTS_def)
  then show ?thesis by (simp add: epicCutoff_def Math_min_Fin Math_max_Fin)
qed

lemma rareCutoff_Fin:
  "\<exists>e r. epicCutoff s = Fin e \<and> rareCutoff s = Fin r \<and> 0 \<le> e \<and> e \<le> r \<and> r \<le> 1"
proof -
  obtain e where e: "epicCutoff s = Fin e" "0 \<le> e" "e \<le> 1"
    using epicCutoff_Fin by blast
  obtain x where "finite_or (rareOccurrenceThreshold s) (rareOccurrenceThreshold DEFAULTS) = Fin x"
    using finite_or_Fin by (auto simp: DEFAULTS_def)
  with e show ?thesis by (simp add: rareCutoff_def Math_min_Fin Math_max_Fin)
qed

lemma cutoffs_Fin:
  "\<exists>e r u. epicCutoff s = Fin e \<and> rareCutoff s = Fin r \<and> uncommonCutoff s = Fin u \<and>
           0 \<le> e \<and> e \<le> r \<and> r \<le> u \<and> u \<le> 1"
proof -
  obtain e r where er: "epicCutoff s = Fin e" "rareCutoff s = Fin r" "0 \<le> e" "e \<le> r" "r \<le> 1"
    using rareCutoff_Fin by blast
  obtain x where
    "finite_or (uncommonOccurrenceThreshold s) (uncommonOccurrenceThreshold DEFAULTS) = Fin x"
    using finite_or_Fin by (auto simp: DEFAULTS_def)
  with er show ?thesis by (simp add: uncommonCutoff_def Math_min_Fin Math_max_Fin)
qed

lemma getCommonality_antimono:
  assumes "js_le a b"
  shows "rarity (label (getCommonality s (Some b))) \<le> rarity (label (getCommonality s (Some a)))"
proof -
  obtain e r u where c: "epicCutoff s = Fin e" "rareCutoff s = Fin r" "uncommonCutoff s = Fin u"
    "e \<le> r" "r \<le> u"
    using cutoffs_Fin by blast
  have nn: "\<not> Number_isNaN a" "\<not> Number_isNaN b"
    using assms by (cases a; cases b; simp)+
  have t: "\<And>x. js_le b x \<Longrightarrow> js_le a x"
    using assms js_le_trans by blast
  have up: "\<And>x y. js_le a (Fin x) \<Longrightarrow> x \<le> y \<Longrightarrow> js_le a (Fin y)"
    using js_le_trans [of a "Fin _" "Fin _"] by simp
  show ?thesis
    using nn c t [of "Fin e"] t [of "Fin r"] t [of "Fin u"] up [of e r] up [of r u]
    by (auto simp: getCommonality_def)
qed

text \<open>
  C4. Whatever the three configured thresholds are (out of order, out of range,
  infinite or not numeric), the effective cutoffs are ordered
  \<open>0 \<le> epic' \<le> rare' \<le> uncommon' \<le> 1\<close>. The classifier is a total function of the
  settings and the occurrence, and it never inverts the tiers: of two occurrences the
  lower one is classified at least as rare as the higher one.
\<close>

theorem cutoffs_monotone:
  "js_le (Fin 0) (epicCutoff s) \<and> js_le (epicCutoff s) (rareCutoff s) \<and>
   js_le (rareCutoff s) (uncommonCutoff s) \<and> js_le (uncommonCutoff s) (Fin 1) \<and>
   (\<forall>a b. js_le a b \<longrightarrow>
      rarity (label (getCommonality s (Some b))) \<le> rarity (label (getCommonality s (Some a))))"
proof -
  obtain e r u where "epicCutoff s = Fin e" "rareCutoff s = Fin r" "uncommonCutoff s = Fin u"
    "0 \<le> e" "e \<le> r" "r \<le> u" "u \<le> 1"
    using cutoffs_Fin by blast
  then show ?thesis using getCommonality_antimono by simp
qed

theorem cutoffs_monotone_witness:
  "js_le (Fin 0.3) (Fin 0.95) \<and>
   label (getCommonality out_of_order (Some (Fin 0.3))) = Epic \<and>
   label (getCommonality out_of_order (Some (Fin 0.95))) = Common \<and>
   rarity (label (getCommonality out_of_order (Some (Fin 0.95))))
     \<le> rarity (label (getCommonality out_of_order (Some (Fin 0.3)))) \<and>
   js_le (epicCutoff out_of_order) (rareCutoff out_of_order) \<and>
   js_le (rareCutoff out_of_order) (uncommonCutoff out_of_order)"
  using cutoffs_monotone [of out_of_order]
  by (simp add: out_of_order_def DEFAULTS_def epicCutoff_def rareCutoff_def uncommonCutoff_def
      finite_or_def Math_min_Fin Math_max_Fin getCommonality_def)

section \<open>Rotation scheduler: the delay of the next timer\<close>

lemma rotate_state_timer:
  "\<exists>d. timer (snd (rotate_state s birds state)) = Some d \<and> js_le (Fin 1) d"
proof -
  let ?sec = "num_or (rotationSeconds s) (rotationSeconds DEFAULTS)"
  let ?mul = "num_or (rareHoldMultiplier s) (rareHoldMultiplier DEFAULTS)"
  have sec: "truthy_num (js_mul ?sec (Fin 1000))"
    by (intro js_mul_truthy num_or_truthy) (simp_all add: truthy_num_def DEFAULTS_def)
  have mul: "truthy_num ?mul"
    by (intro num_or_truthy) (simp add: truthy_num_def DEFAULTS_def)
  have one: "truthy_num (Fin 1)" by (simp add: truthy_num_def)
  have hold: "js_le (Fin 1) (Math_max (Fin 1) (js_mul (js_mul ?sec (Fin 1000)) ?mul))"
    by (rule Math_max_floor [OF truthy_not_NaN [OF js_mul_truthy [OF sec mul]]])
  have plain: "js_le (Fin 1) (Math_max (Fin 1) (js_mul (js_mul ?sec (Fin 1000)) (Fin 1)))"
    by (rule Math_max_floor [OF truthy_not_NaN [OF js_mul_truthy [OF sec one]]])
  show ?thesis
    using hold plain by (simp add: rotate_state_def Let_def split: prod.splits)
qed

text \<open>
  C10. For every settings bag, every list of today's species (the empty one too) and
  every context that has a rotation state, the tick arms a timer whose delay is a
  number not below 1 millisecond: never zero, negative or \<open>NaN\<close>.
\<close>

theorem timer_delay_floor:
  assumes "rs context = Some state"
  shows "\<exists>d. armed_delay context (snd (rotateOnce s birds context rs)) = Some d \<and>
             js_le (Fin 1) d"
  using assms rotate_state_timer [of s birds state]
  by (auto simp: rotateOnce_def armed_delay_def split: prod.splits)

theorem timer_delay_floor_witness:
  "[''key1'' \<mapsto> fresh_rotation] ''key1'' = Some fresh_rotation \<and>
   armed_delay ''key1''
     (snd (rotateOnce negative_hold [jay] ''key1'' [''key1'' \<mapsto> fresh_rotation])) = Some (Fin 1)"
  using timer_delay_floor [of "[''key1'' \<mapsto> fresh_rotation]" "''key1''" fresh_rotation
      negative_hold "[jay]"]
  by (simp add: rotateOnce_def rotate_state_def armed_delay_def negative_hold_def jay_def
      fresh_rotation_def DEFAULTS_def num_or_def truthy_num_def Math_max_def)






section \<open>Today's species: the sort\<close>

lemma mset_sort_insert: "mset (sort_insert cmp x ys) = add_mset x (mset ys)"
  by (induction ys) auto

lemma mset_js_sort: "mset (js_sort cmp xs) = mset xs"
  by (induction xs) (auto simp: mset_sort_insert)

lemma set_sort_insert: "set (sort_insert cmp x ys) = insert x (set ys)"
  by (induction ys) auto

lemma cmp_positive_sub:
  "\<not> Number_isNaN x \<Longrightarrow> \<not> Number_isNaN y \<Longrightarrow> cmp_positive (js_sub x y) = (\<not> js_le x y)"
  by (cases x; cases y) (auto simp: cmp_positive_def)

lemma js_le_total: "\<not> Number_isNaN x \<Longrightarrow> \<not> Number_isNaN y \<Longrightarrow> js_le x y \<or> js_le y x"
  by (cases x; cases y) auto

lemma sorted_sort_insert:
  assumes "\<not> Number_isNaN (occ_or_1 x)" "\<forall>y\<in>set ys. \<not> Number_isNaN (occ_or_1 y)"
    "sorted_wrt occ_le ys"
  shows "sorted_wrt occ_le (sort_insert by_occurrence x ys)"
  using assms
proof (induction ys)
  case Nil
  then show ?case by simp
next
  case (Cons y ys)
  show ?case
  proof (cases "js_le (occ_or_1 x) (occ_or_1 y)")
    case True
    then have "\<forall>z\<in>set ys. occ_le x z"
      using Cons.prems(3) js_le_trans by (auto simp: occ_le_def)
    with True Cons.prems show ?thesis
      by (simp add: by_occurrence_def cmp_positive_sub occ_le_def)
  next
    case False
    then have "occ_le y x"
      using Cons.prems js_le_total by (auto simp: occ_le_def)
    with False Cons show ?thesis
      by (auto simp: by_occurrence_def cmp_positive_sub set_sort_insert)
  qed
qed

lemma sorted_js_sort:
  "\<forall>y\<in>set xs. \<not> Number_isNaN (occ_or_1 y) \<Longrightarrow> sorted_wrt occ_le (js_sort by_occurrence xs)"
proof (induction xs)
  case Nil
  then show ?case by simp
next
  case (Cons x xs)
  have "set (js_sort by_occurrence xs) = set xs"
    using mset_js_sort [of by_occurrence xs] by (metis set_mset_mset)
  with Cons show ?case by (simp add: sorted_sort_insert)
qed


section \<open>Rotation scheduler: the cycle\<close>

lemma rotate_state_shows:
  assumes "birds \<noteq> []"
  shows "fst (rotate_state s birds state) =
           Tile (birds ! (if index state \<ge> length birds then 0 else index state)) \<and>
         index (snd (rotate_state s birds state)) =
           Suc (if index state \<ge> length birds then 0 else index state)"
  using assms by (simp add: rotate_state_def Let_def)

lemma ticks_shows:
  assumes "birds \<noteq> []" "rs context = Some state"
  shows "fst (ticks s birds context n rs) =
         map (\<lambda>j. Some (Tile (birds !
               (((if index state \<ge> length birds then 0 else index state) + j) mod length birds))))
             [0..<n]"
  using assms(2)
proof (induction n arbitrary: rs state)
  case 0
  then show ?case by simp
next
  case (Suc n)
  let ?k = "if index state \<ge> length birds then 0 else index state"
  let ?N = "length birds"
  obtain out state' where r: "rotate_state s birds state = (out, state')"
    by (cases "rotate_state s birds state")
  with rotate_state_shows [OF assms(1), of s state]
  have out: "out = Tile (birds ! ?k)" and idx: "index state' = Suc ?k" by simp_all
  have kN: "?k < ?N" using assms(1) by auto
  let ?k' = "if index state' \<ge> ?N then 0 else index state'"
  have k': "?k' = Suc ?k mod ?N"
    using kN idx by (auto simp: mod_Suc)
  have step: "rotateOnce s birds context rs = (Some out, rs(context \<mapsto> state'))"
    using Suc.prems r by (simp add: rotateOnce_def)
  have IH: "fst (ticks s birds context n (rs(context \<mapsto> state'))) =
      map (\<lambda>j. Some (Tile (birds ! ((?k' + j) mod ?N)))) [0..<n]"
    by (rule Suc.IH) simp
  have shift: "\<And>j. (?k' + j) mod ?N = (?k + Suc j) mod ?N"
    unfolding k' by (simp add: mod_add_left_eq)
  have "fst (ticks s birds context (Suc n) rs) =
        Some out # fst (ticks s birds context n (rs(context \<mapsto> state')))"
    using step by (simp split: prod.splits)
  also have "\<dots> = Some (Tile (birds ! ((?k + 0) mod ?N))) #
       map (\<lambda>j. Some (Tile (birds ! ((?k + Suc j) mod ?N)))) [0..<n]"
    using kN out IH shift by simp
  also have "\<dots> = map (\<lambda>j. Some (Tile (birds ! ((?k + j) mod ?N)))) [0..<Suc n]"
    by (simp only: upt_conv_Cons [of 0 "Suc n"] list.map map_Suc_upt [symmetric] map_map comp_def)
  finally show ?case .
qed

lemma rotate_as_map:
  "xs \<noteq> [] \<Longrightarrow> rotate k xs = map (\<lambda>j. xs ! ((k + j) mod length xs)) [0..<length xs]"
  by (rule nth_equalityI) (simp_all add: nth_rotate)


lemma mset_rotate1_eq: "mset (rotate1 xs) = mset xs"
  by (cases xs) simp_all

lemma mset_rotate_eq: "mset (rotate n xs) = mset xs"
  by (induction n) (simp_all add: mset_rotate1_eq)

text \<open>
  C1, as the code has it. A context has a rotation state; today's list \<open>birds\<close> is
  what \<open>getTodayBirds\<close> returns for a day whose records hold no \<open>NaN\<close> occurrence
  (none can come out of \<open>parsePayload\<close>), it has \<open>N \<ge> 1\<close> species, and settings
  and list stay fixed. Then \<open>N\<close> consecutive ticks show the list rotated by the stored
  index (an index of \<open>N\<close> or more restarts at 0): every stored species exactly once,
  in cyclic ascending order of occurrence. The list itself is in ascending order of
  occurrence, a missing one counting as 1, so the ticks show it in that order when
  the cycle starts at index 0. Tick \<open>N + 1\<close> shows what the first tick showed.
\<close>

theorem rotation_cycle:
  assumes "rs ctx = Some state"
    and "db today = Some dayMap"
    and "\<forall>b\<in>set (map_values dayMap). \<not> Number_isNaN (occ_or_1 b)"
    and "birds = getTodayBirds today db"
    and "birds \<noteq> []"
    and "k = (if length birds \<le> index state then 0 else index state)"
  shows "fst (ticks s birds ctx (length birds) rs) = map (\<lambda>b. Some (Tile b)) (rotate k birds) \<and>
         fst (ticks s birds ctx (Suc (length birds)) rs) =
           fst (ticks s birds ctx (length birds) rs) @
           take 1 (fst (ticks s birds ctx (length birds) rs)) \<and>
         mset (rotate k birds) = mset (map_values dayMap) \<and>
         sorted_wrt occ_le birds \<and>
         (k = 0 \<longrightarrow> fst (ticks s birds ctx (length birds) rs) = map (\<lambda>b. Some (Tile b)) birds)"
proof -
  let ?N = "length birds"
  let ?f = "\<lambda>j. Some (Tile (birds ! ((k + j) mod ?N)))"
  have N: "0 < ?N" using assms(5) by simp
  have shown: "\<And>n. fst (ticks s birds ctx n rs) = map ?f [0..<n]"
    using ticks_shows [of birds rs ctx state s] assms(1,5,6) by simp
  have birds: "birds = js_sort by_occurrence (map_values dayMap)"
    using assms(2,4) by (simp add: getTodayBirds_def)
  have c1: "fst (ticks s birds ctx ?N rs) = map (\<lambda>b. Some (Tile b)) (rotate k birds)"
    using shown [of ?N] rotate_as_map [OF assms(5), of k] by (simp add: comp_def)
  have "map ?f [0..<Suc ?N] = map ?f [0..<?N] @ [?f ?N]" by simp
  moreover have "take 1 (map ?f [0..<?N]) = [?f 0]"
    using N by (simp add: take_map take_Suc_conv_app_nth upt_rec [of 0 ?N])
  moreover have "?f ?N = ?f 0" by simp
  ultimately have c2: "fst (ticks s birds ctx (Suc ?N) rs) =
      fst (ticks s birds ctx ?N rs) @ take 1 (fst (ticks s birds ctx ?N rs))"
    using shown [of "Suc ?N"] shown [of ?N] by (simp del: ticks.simps)
  have c3: "mset (rotate k birds) = mset (map_values dayMap)"
    by (simp add: birds mset_js_sort mset_rotate_eq)
  have c4: "sorted_wrt occ_le birds"
    unfolding birds using assms(3) by (rule sorted_js_sort)
  from c1 c2 c3 c4 show ?thesis by simp
qed

theorem rotation_cycle_witness:
  "garden ''2024-05-01'' = Some [(''American Robin'', robin), (''Wren'', wren), (''Blue Jay'', jay)] \<and>
   list_all (\<lambda>b. \<not> Number_isNaN (occ_or_1 b)) [robin, wren, jay] \<and>
   getTodayBirds ''2024-05-01'' garden = [jay, robin, wren] \<and>
   fst (ticks DEFAULTS [jay, robin, wren] ''key1'' 3 [''key1'' \<mapsto> fresh_rotation]) =
     [Some (Tile jay), Some (Tile robin), Some (Tile wren)] \<and>
   fst (ticks DEFAULTS [jay, robin, wren] ''key1'' 4 [''key1'' \<mapsto> fresh_rotation]) =
     [Some (Tile jay), Some (Tile robin), Some (Tile wren), Some (Tile jay)]"
proof -
  have g: "garden ''2024-05-01'' =
      Some [(''American Robin'', robin), (''Wren'', wren), (''Blue Jay'', jay)]"
    by (simp add: garden_def)
  have nn: "\<forall>b\<in>set (map_values [(''American Robin'', robin), (''Wren'', wren), (''Blue Jay'', jay)]).
      \<not> Number_isNaN (occ_or_1 b)"
    by (simp add: map_values_def occ_or_1_def robin_def wren_def jay_def)
  have b: "getTodayBirds ''2024-05-01'' garden = [jay, robin, wren]"
    by (simp add: getTodayBirds_def garden_def map_values_def by_occurrence_def occ_or_1_def
        cmp_positive_def robin_def wren_def jay_def)
  have r: "[''key1'' \<mapsto> fresh_rotation] ''key1'' = Some fresh_rotation" by simp
  have i: "(0::nat) = (if length [jay, robin, wren] \<le> index fresh_rotation then 0
                       else index fresh_rotation)"
    by (simp add: fresh_rotation_def)
  show ?thesis
    using rotation_cycle [where rs = "[''key1'' \<mapsto> fresh_rotation]" and ctx = "''key1''"
        and state = fresh_rotation and db = garden and today = "''2024-05-01''"
        and dayMap = "[(''American Robin'', robin), (''Wren'', wren), (''Blue Jay'', jay)]"
        and birds = "[jay, robin, wren]" and k = 0 and s = DEFAULTS] r g nn b i
    by (simp add: map_values_def eval_nat_numeral)
qed

text \<open>
  C1 as stated fails in the middle of a cycle: after one tick of a fresh context, the
  next three ticks show the three species of the day, yet not in ascending order.
\<close>

theorem rotation_cycle_counterexample:
  "getTodayBirds ''2024-05-01'' garden = [jay, robin, wren] \<and>
   fst (ticks DEFAULTS [jay, robin, wren] ''key1'' 3
     (snd (ticks DEFAULTS [jay, robin, wren] ''key1'' 1 [''key1'' \<mapsto> fresh_rotation]))) =
     [Some (Tile robin), Some (Tile wren), Some (Tile jay)] \<and>
   \<not> sorted_wrt occ_le [robin, wren, jay]"
  by (simp add: getTodayBirds_def garden_def map_values_def by_occurrence_def occ_or_1_def
        cmp_positive_def robin_def wren_def jay_def eval_nat_numeral rotateOnce_def
        rotate_state_def fresh_rotation_def occ_le_def Let_def)


section \<open>Daily aggregator: merging and retention\<close>

lemma map_get_map_set: "map_get (map_set m k v) k = Some v"
  by (induction m) auto

lemma Math_min_idem: "Math_min a a = a"
  by (cases a) (simp_all add: Math_min_def)

lemma Math_min_commute: "Math_min a b = Math_min b a"
  by (cases a; cases b) (auto simp: Math_min_def)

lemma Math_min_assoc: "Math_min (Math_min a b) c = Math_min a (Math_min b c)"
  by (cases a; cases b; cases c) (auto simp: Math_min_def)

lemma Math_min_left_commute: "Math_min a (Math_min b c) = Math_min b (Math_min a c)"
  by (cases a; cases b; cases c) (auto simp: Math_min_def)

text \<open>What one upsert stores for its species.\<close>

lemma updateDailyBirds_stored:
  assumes "name d \<noteq> []"
  shows "stored (updateDailyBirds today now d db) (dateKey_of today d) (name d) =
     Some \<lparr> b_name = name d,
            b_occurrence =
              (case occurrence d of
                 Some x \<Rightarrow>
                   Some (case stored_occurrence db (dateKey_of today d) (name d) of
                           Some e \<Rightarrow> Math_min x e
                         | None \<Rightarrow> x)
               | None \<Rightarrow> stored_occurrence db (dateKey_of today d) (name d)),
            b_confidence =
              (case confidence d of
                 Some c \<Rightarrow> Some c
               | None \<Rightarrow> stored_confidence db (dateKey_of today d) (name d)),
            lastSeen = now \<rparr>"
  using assms
  by (auto simp: updateDailyBirds_def Let_def stored_def stored_occurrence_def
      stored_confidence_def pruneOldDays_def map_get_map_set Math_min_idem
      split: option.splits)


lemma updateDailyBirds_occurrence:
  assumes "name d \<noteq> []" "name d = n" "dateKey_of today d = k"
  shows "stored_occurrence (updateDailyBirds today now d db) k n =
     (case occurrence d of
        Some x \<Rightarrow> Some (case stored_occurrence db k n of Some e \<Rightarrow> Math_min x e | None \<Rightarrow> x)
      | None \<Rightarrow> stored_occurrence db k n)"
  unfolding assms(2,3) [symmetric]
  using updateDailyBirds_stored [OF assms(1), of today now db]
  by (simp add: stored_occurrence_def)

lemma updateDailyBirds_confidence:
  assumes "name d \<noteq> []" "name d = n" "dateKey_of today d = k"
  shows "stored_confidence (updateDailyBirds today now d db) k n =
     (case confidence d of Some c \<Rightarrow> Some c | None \<Rightarrow> stored_confidence db k n)"
  unfolding assms(2,3) [symmetric]
  using updateDailyBirds_stored [OF assms(1), of today now db]
  by (simp add: stored_confidence_def)

lemma two_upserts_occurrence:
  assumes "name d1 = n" "name d2 = n" "n \<noteq> []"
    and "dateKey_of today d1 = k" "dateKey_of today d2 = k"
  shows "stored_occurrence (updateDailyBirds today t2 d2 (updateDailyBirds today t1 d1 db)) k n =
     (case (occurrence d1, occurrence d2, stored_occurrence db k n) of
        (Some a, Some b, Some e) \<Rightarrow> Some (Math_min e (Math_min a b))
      | (Some a, Some b, None) \<Rightarrow> Some (Math_min a b)
      | (Some a, None, Some e) \<Rightarrow> Some (Math_min e a)
      | (None, Some b, Some e) \<Rightarrow> Some (Math_min e b)
      | (Some a, None, None) \<Rightarrow> Some a
      | (None, Some b, None) \<Rightarrow> Some b
      | (None, None, r) \<Rightarrow> r)"
proof -
  have n1: "name d1 \<noteq> []" and n2: "name d2 \<noteq> []" using assms(1-3) by simp_all
  show ?thesis
    unfolding updateDailyBirds_occurrence [OF n2 assms(2) assms(5)]
      updateDailyBirds_occurrence [OF n1 assms(1) assms(4)]
    by (auto split: option.splits simp: Math_min_commute Math_min_left_commute)
qed

text \<open>
  C2, as the code has it. Two upserts of one species (a non-empty name) under one
  date key: the occurrence stored afterwards does not depend on their order; when both
  carry an occurrence it is the minimum of the two and of what was stored before. An
  upsert without an occurrence leaves the stored occurrence as it was. \<open>lastSeen\<close> is
  the time of the newest upsert. The stored confidence is that of the newest upsert
  when it carries one, and stays as it was when it carries none.
\<close>

theorem merge_law:
  assumes "name d1 = n" "name d2 = n" "n \<noteq> []"
    and "dateKey_of today d1 = k" "dateKey_of today d2 = k"
  shows "stored_occurrence (updateDailyBirds today t2 d2 (updateDailyBirds today t1 d1 db)) k n =
         stored_occurrence (updateDailyBirds today t4 d1 (updateDailyBirds today t3 d2 db)) k n \<and>
     (\<forall>a b. occurrence d1 = Some a \<and> occurrence d2 = Some b \<longrightarrow>
        stored_occurrence (updateDailyBirds today t2 d2 (updateDailyBirds today t1 d1 db)) k n =
          (case stored_occurrence db k n of
             None \<Rightarrow> Some (Math_min a b)
           | Some e \<Rightarrow> Some (Math_min e (Math_min a b)))) \<and>
     (occurrence d1 = None \<longrightarrow>
        stored_occurrence (updateDailyBirds today t1 d1 db) k n = stored_occurrence db k n) \<and>
     stored_confidence (updateDailyBirds today t1 d1 db) k n =
       (case confidence d1 of Some c \<Rightarrow> Some c | None \<Rightarrow> stored_confidence db k n) \<and>
     map_option lastSeen (stored (updateDailyBirds today t1 d1 db) k n) = Some t1"
proof -
  have n1: "name d1 \<noteq> []" using assms(1,3) by simp
  have order: "stored_occurrence (updateDailyBirds today t2 d2 (updateDailyBirds today t1 d1 db)) k n =
         stored_occurrence (updateDailyBirds today t4 d1 (updateDailyBirds today t3 d2 db)) k n"
    unfolding two_upserts_occurrence [OF assms(1,2,3,4,5)]
      two_upserts_occurrence [OF assms(2,1,3,5,4)]
    by (auto split: option.splits simp: Math_min_commute Math_min_left_commute)
  have both: "\<forall>a b. occurrence d1 = Some a \<and> occurrence d2 = Some b \<longrightarrow>
        stored_occurrence (updateDailyBirds today t2 d2 (updateDailyBirds today t1 d1 db)) k n =
          (case stored_occurrence db k n of
             None \<Rightarrow> Some (Math_min a b)
           | Some e \<Rightarrow> Some (Math_min e (Math_min a b)))"
    unfolding two_upserts_occurrence [OF assms(1,2,3,4,5)]
    by (auto split: option.splits)
  have missing: "occurrence d1 = None \<longrightarrow>
        stored_occurrence (updateDailyBirds today t1 d1 db) k n = stored_occurrence db k n"
    by (simp add: updateDailyBirds_occurrence [OF n1 assms(1) assms(4)])
  have conf: "stored_confidence (updateDailyBirds today t1 d1 db) k n =
       (case confidence d1 of Some c \<Rightarrow> Some c | None \<Rightarrow> stored_confidence db k n)"
    by (rule updateDailyBirds_confidence [OF n1 assms(1) assms(4)])
  have seen: "map_option lastSeen (stored (updateDailyBirds today t1 d1 db) k n) = Some t1"
    using updateDailyBirds_stored [OF n1, of today t1 db] assms(1,4) by simp
  from order both missing conf seen show ?thesis by blast
qed

theorem merge_law_witness:
  "stored_occurrence (updateDailyBirds ''2024-05-01'' 2000 heard_fifth
      (updateDailyBirds ''2024-05-01'' 1000 heard_half Map.empty)) ''2024-05-01'' ''Blue Jay''
     = Some (Fin 0.2) \<and>
   stored_occurrence (updateDailyBirds ''2024-05-01'' 2000 heard_half
      (updateDailyBirds ''2024-05-01'' 1000 heard_fifth Map.empty)) ''2024-05-01'' ''Blue Jay''
     = Some (Fin 0.2) \<and>
   stored_confidence (updateDailyBirds ''2024-05-01'' 1000 heard_half Map.empty)
      ''2024-05-01'' ''Blue Jay'' = Some (Fin 0.9) \<and>
   occurrence heard_bare = None \<and>
   stored_occurrence (updateDailyBirds ''2024-05-01'' 2000 heard_bare
      (updateDailyBirds ''2024-05-01'' 1000 heard_half Map.empty)) ''2024-05-01'' ''Blue Jay''
     = Some (Fin 0.5)"
proof -
  have h: "name heard_half = ''Blue Jay''" "name heard_fifth = ''Blue Jay''"
    "''Blue Jay'' \<noteq> []"
    "dateKey_of ''2024-05-01'' heard_half = ''2024-05-01''"
    "dateKey_of ''2024-05-01'' heard_fifth = ''2024-05-01''"
    by (simp_all add: heard_half_def heard_fifth_def dateKey_of_def)
  have e: "stored_occurrence Map.empty ''2024-05-01'' ''Blue Jay'' = None"
    "stored_confidence Map.empty ''2024-05-01'' ''Blue Jay'' = None"
    by (simp_all add: stored_occurrence_def stored_confidence_def stored_def)
  have o: "occurrence heard_half = Some (Fin 0.5)" "occurrence heard_fifth = Some (Fin 0.2)"
    "confidence heard_half = Some (Fin 0.9)"
    by (simp_all add: heard_half_def heard_fifth_def)
  have b: "name heard_bare = ''Blue Jay''" "occurrence heard_bare = None"
    "dateKey_of ''2024-05-01'' heard_bare = ''2024-05-01''"
    by (simp_all add: heard_bare_def dateKey_of_def)
  have first: "stored_occurrence (updateDailyBirds ''2024-05-01'' 1000 heard_half Map.empty)
      ''2024-05-01'' ''Blue Jay'' = Some (Fin 0.5)"
    by (simp add: updateDailyBirds_def Let_def stored_def stored_occurrence_def pruneOldDays_def
        heard_half_def dateKey_of_def Math_min_def)
  show ?thesis
    using merge_law [OF h, of 2000 1000 Map.empty 2000 1000]
      merge_law [OF b(1) h(1) h(3) b(3) h(4), of 1000 2000
        "updateDailyBirds ''2024-05-01'' 1000 heard_half Map.empty" 1000 2000]
      e o b first
    by (auto simp: Math_min_Fin)
qed

text \<open>
  C2 as stated fails for the confidence: after an upsert with confidence 0.9 and a newer
  one of the same species without a confidence, the stored confidence is still 0.9,
  not that of the newest observation.
\<close>

theorem merge_law_confidence_counterexample:
  "stored_confidence (updateDailyBirds ''2024-05-01'' 2000 heard_bare
      (updateDailyBirds ''2024-05-01'' 1000 heard_half Map.empty)) ''2024-05-01'' ''Blue Jay''
     = Some (Fin 0.9) \<and>
   stored_confidence (updateDailyBirds ''2024-05-01'' 2000 heard_bare
      (updateDailyBirds ''2024-05-01'' 1000 heard_half Map.empty)) ''2024-05-01'' ''Blue Jay''
     \<noteq> confidence heard_bare"
  by (simp add: updateDailyBirds_def Let_def stored_def stored_confidence_def pruneOldDays_def
      heard_bare_def heard_half_def dateKey_of_def Math_min_def)

text \<open>
  C6. After the upsert of a detection with a non-empty name (the only ones the message
  handler passes on) and date key \<open>k\<close>, \<open>k\<close> is the only key of the aggregate, so
  the list of species of every other day is empty; and when \<open>k\<close> was not stored
  before, the list for \<open>k\<close> holds the record of this detection and nothing else.
\<close>

theorem single_day:
  assumes "name d \<noteq> []"
  shows "dom (updateDailyBirds today now d db) = {dateKey_of today d} \<and>
     (\<forall>day. day \<noteq> dateKey_of today d \<longrightarrow> getTodayBirds day (updateDailyBirds today now d db) = []) \<and>
     (db (dateKey_of today d) = None \<longrightarrow>
        getTodayBirds (dateKey_of today d) (updateDailyBirds today now d db) =
          [\<lparr> b_name = name d, b_occurrence = occurrence d, b_confidence = confidence d,
              lastSeen = now \<rparr>])"
  using assms
  by (auto simp: updateDailyBirds_def Let_def pruneOldDays_def getTodayBirds_def dom_def
      map_values_def Math_min_idem split: option.splits if_splits)

theorem single_day_witness:
  "name next_day \<noteq> [] \<and> dom garden = {''2024-05-01''} \<and>
   dom (updateDailyBirds ''2024-05-02'' 5000 next_day garden) = {''2024-05-02''} \<and>
   getTodayBirds ''2024-05-01'' (updateDailyBirds ''2024-05-02'' 5000 next_day garden) = [] \<and>
   getTodayBirds ''2024-05-02'' (updateDailyBirds ''2024-05-02'' 5000 next_day garden) =
     [\<lparr> b_name = ''Wren'', b_occurrence = Some (Fin 0.3), b_confidence = Some (Fin 0.7),
         lastSeen = 5000 \<rparr>]"
proof -
  have n: "name next_day \<noteq> []" by (simp add: next_day_def)
  have k: "dateKey_of ''2024-05-02'' next_day = ''2024-05-02''"
    by (simp add: next_day_def dateKey_of_def)
  have g: "garden ''2024-05-02'' = None" "dom garden = {''2024-05-01''}"
    by (simp_all add: garden_def)
  show ?thesis
    using single_day [OF n, of "''2024-05-02''" 5000 garden] k g n
    by (simp add: next_day_def)
qed


section \<open>Image cache: one request per URL\<close>

lemma settle_inflight: "imageInFlight (settle p url t st) url = None"
  by (simp add: settle_def Let_def split: prod.splits)

lemma settle_outcome: "\<exists>r. outcomes (settle p url t st) p = Some r"
  by (simp add: settle_def Let_def split: prod.splits)

lemma settle_rejected:
  "outcomes (settle p url t st) p = Some (Rejected e) \<Longrightarrow>
   imageCache (settle p url t st) = imageCache st"
  by (auto simp: settle_def Let_def split: prod.splits transport.splits if_splits option.splits)

lemma settle_fulfilled:
  "outcomes (settle p url t st) p = Some (Fulfilled dataUri) \<Longrightarrow>
   imageCache (settle p url t st) url = Some dataUri"
  by (auto simp: settle_def Let_def split: prod.splits transport.splits if_splits option.splits)

lemma settle_frame:
  "requests (settle p url t st) = requests st \<and>
   fetch_available (settle p url t st) = fetch_available st"
  by (simp add: settle_def Let_def split: prod.splits)

text \<open>
  C7. A fetch of a cached URL returns the cached entry and changes nothing: no network
  request. A fetch of a URL that is neither cached nor in flight makes one request
  and registers its promise; a second fetch before that promise settles returns the
  same promise and leaves the state as it is, so one request serves both callers, and
  so does every fetch that finds the URL in flight. A started promise settles with
  one result. When it is rejected the cache is unchanged, and the next fetch of the
  URL makes a new request; when it is fulfilled the cache holds its value. After the
  settlement the URL is no longer in flight, whatever the outcome.
\<close>

theorem image_fetch:
  "(imageCache st url = Some dataUri \<longrightarrow>
      fetchImageData url st = (Ready (Fulfilled dataUri), st)) \<and>
   (imageCache st url = None \<and> imageInFlight st url = None \<and> fetch_available st \<longrightarrow>
      (\<exists>p st1. fetchImageData url st = (Started p, st1) \<and>
         requests st1 = requests st @ [url] \<and>
         imageInFlight st1 url = Some p \<and>
         fetchImageData url st1 = (Started p, st1))) \<and>
   (imageCache st url = None \<and> imageInFlight st url = Some p \<longrightarrow>
      fetchImageData url st = (Started p, st)) \<and>
   (\<exists>r. outcomes (settle p url t st) p = Some r) \<and>
   (\<forall>e. outcomes (settle p url t st) p = Some (Rejected e) \<longrightarrow>
      imageCache (settle p url t st) = imageCache st) \<and>
   (imageCache st url = None \<and> fetch_available st \<and>
    (\<exists>e. outcomes (settle p url t st) p = Some (Rejected e)) \<longrightarrow>
      requests (snd (fetchImageData url (settle p url t st))) = requests st @ [url]) \<and>
   (\<forall>d. outcomes (settle p url t st) p = Some (Fulfilled d) \<longrightarrow>
      imageCache (settle p url t st) url = Some d) \<and>
   imageInFlight (settle p url t st) url = None"
proof -
  have cached: "imageCache st url = Some dataUri \<longrightarrow>
      fetchImageData url st = (Ready (Fulfilled dataUri), st)"
    by (simp add: fetchImageData_def)
  have first: "imageCache st url = None \<and> imageInFlight st url = None \<and> fetch_available st \<longrightarrow>
      (\<exists>p st1. fetchImageData url st = (Started p, st1) \<and>
         requests st1 = requests st @ [url] \<and>
         imageInFlight st1 url = Some p \<and>
         fetchImageData url st1 = (Started p, st1))"
    by (simp add: fetchImageData_def Let_def)
  have attach: "imageCache st url = None \<and> imageInFlight st url = Some p \<longrightarrow>
      fetchImageData url st = (Started p, st)"
    by (simp add: fetchImageData_def)
  have retry: "imageCache st url = None \<and> fetch_available st \<and>
    (\<exists>e. outcomes (settle p url t st) p = Some (Rejected e)) \<longrightarrow>
      requests (snd (fetchImageData url (settle p url t st))) = requests st @ [url]"
  proof (intro impI, elim conjE exE)
    fix e
    assume c: "imageCache st url = None" and f: "fetch_available st"
      and r: "outcomes (settle p url t st) p = Some (Rejected e)"
    have "imageCache (settle p url t st) url = None"
      using settle_rejected [OF r] c by simp
    then show "requests (snd (fetchImageData url (settle p url t st))) = requests st @ [url]"
      using settle_inflight [of p url t st] settle_frame [of p url t st] f
      by (simp add: fetchImageData_def Let_def)
  qed
  show ?thesis
    using cached first attach retry settle_outcome [of p url t st]
      settle_rejected [of p url t st] settle_fulfilled [of p url t st]
      settle_inflight [of p url t st]
    by blast
qed


theorem image_fetch_witness:
  "fetchImageData jay_url no_images =
     (Started 0, no_images\<lparr> requests := [jay_url], imageInFlight := [jay_url \<mapsto> 0] \<rparr>) \<and>
   fetchImageData jay_url (snd (fetchImageData jay_url no_images)) =
     (Started 0, snd (fetchImageData jay_url no_images)) \<and>
   outcomes (settle 0 jay_url not_found (snd (fetchImageData jay_url no_images))) 0 =
     Some (Rejected (HttpStatus 404)) \<and>
   imageCache (settle 0 jay_url not_found (snd (fetchImageData jay_url no_images))) jay_url = None \<and>
   imageInFlight (settle 0 jay_url not_found (snd (fetchImageData jay_url no_images))) jay_url = None \<and>
   requests (snd (fetchImageData jay_url
      (settle 0 jay_url not_found (snd (fetchImageData jay_url no_images))))) = [jay_url, jay_url] \<and>
   imageCache (settle 0 jay_url jpeg_ok (snd (fetchImageData jay_url no_images))) jay_url =
     Some ''data:image/jpeg;base64,AAEC'' \<and>
   fst (fetchImageData jay_url (settle 0 jay_url jpeg_ok (snd (fetchImageData jay_url no_images)))) =
     Ready (Fulfilled ''data:image/jpeg;base64,AAEC'')"
  using image_fetch [of no_images jay_url "[]" 0 not_found]
    image_fetch [of "snd (fetchImageData jay_url no_images)" jay_url "[]" 0 not_found]
  by (simp add: fetchImageData_def settle_def no_images_def not_found_def jpeg_ok_def Let_def)


section \<open>Payload normalizer\<close>


lemma then_do_Inr [simp]: "then_do (Inr v) f = f v"
  by (simp add: then_do_def)

lemma then_do_Inl [simp]: "then_do (Inl e) f = Inl e"
  by (simp add: then_do_def)

























end
